theory Spec2Isabelle
  imports Complex_Main "HOL-Library.Sublist"
begin

section \<open>Python values used by \<open>ai_services.py\<close>\<close>

text \<open>
  A Python \<open>str\<close> is a sequence of Unicode code points. String literals of the source are
  written \<open>py ''...''\<close>; every literal of the module is ASCII except the degree sign
  (code point 176) of three training sentences.
\<close>

type_synonym codepoint = nat
type_synonym pystr = "codepoint list"

abbreviation py :: "string \<Rightarrow> pystr" where
  "py s \<equiv> map of_char s"

text \<open>
  Exceptions are values. The constructor is the exception class as far as the handlers of
  the module tell classes apart (\<open>except OSError\<close> before \<open>except Exception\<close>); the
  argument is \<open>str(e)\<close>, which the handlers put into their log messages.
\<close>

datatype py_error =
    OSError pystr
  | ImportError pystr
  | ValueError pystr
  | IndexError pystr
  | Exception pystr

fun str_of :: "py_error \<Rightarrow> pystr" where
  "str_of (OSError m) = m"
| "str_of (ImportError m) = m"
| "str_of (ValueError m) = m"
| "str_of (IndexError m) = m"
| "str_of (Exception m) = m"

definition and_then :: "py_error + 'a \<Rightarrow> ('a \<Rightarrow> py_error + 'b) \<Rightarrow> py_error + 'b" where
  "and_then r f = (case r of Inl e \<Rightarrow> Inl e | Inr x \<Rightarrow> f x)"

text \<open>\<open>xs[0]\<close>: the first element, \<open>IndexError\<close> on an empty sequence.\<close>

definition item0 :: "'a list \<Rightarrow> py_error + 'a" where
  "item0 xs = (case xs of [] \<Rightarrow> Inl (IndexError (py ''index 0 is out of bounds'')) | x # _ \<Rightarrow> Inr x)"

text \<open>
  A Python \<open>float\<close> is an IEEE double: a real number (one of the representable ones), an
  infinity or NaN. The module never does arithmetic on floats: it compares them and takes
  a maximum, and both are exact, so \<open>Finite r\<close> stands for the double whose value is
  \<open>r\<close> and no rounding has to be modelled. \<open>float_lt\<close> is the operator \<open><\<close>: every
  comparison with NaN is false.
\<close>

datatype pyfloat = Finite real | PosInf | NegInf | NaN

fun float_lt :: "pyfloat \<Rightarrow> pyfloat \<Rightarrow> bool" where
  "float_lt NaN b = False"
| "float_lt a NaN = False"
| "float_lt (Finite a) (Finite b) = (a < b)"
| "float_lt (Finite a) PosInf = True"
| "float_lt (Finite a) NegInf = False"
| "float_lt PosInf b = False"
| "float_lt NegInf NegInf = False"
| "float_lt NegInf b = True"

text \<open>
  The literal \<open>0.6\<close> denotes the double nearest to six tenths, which lies just below it:
  \<open>5404319552844595 / 2 ^ 53\<close>.
\<close>

definition float_0_6 :: real where
  "float_0_6 = 5404319552844595 / 9007199254740992"

text \<open>
  \<open>np.max\<close> of a one-dimensional array: NaN as soon as one entry is NaN, the largest
  entry otherwise, \<open>ValueError\<close> on an empty array.
\<close>

definition float_max2 :: "pyfloat \<Rightarrow> pyfloat \<Rightarrow> pyfloat" where
  "float_max2 a b = (if a = NaN \<or> b = NaN then NaN else if float_lt a b then b else a)"

fun np_max :: "pyfloat list \<Rightarrow> py_error + pyfloat" where
  "np_max [] =
     Inl (ValueError (py ''zero-size array to reduction operation maximum which has no identity''))"
| "np_max (x # xs) = Inr (foldl float_max2 x xs)"

section \<open>The libraries the module calls\<close>

text \<open>
  spaCy: a loaded pipeline maps a text to its tokens, or raises (for instance on a text
  longer than its \<open>max_length\<close>). The module reads three attributes of a token.
\<close>

record token =
  lemma_of :: pystr
  is_stop :: bool
  is_punct :: bool

type_synonym annotator = "pystr \<Rightarrow> py_error + token list"

text \<open>
  scikit-learn: a fitted \<open>Pipeline\<close> offers \<open>predict\<close> (one label per document) and
  \<open>predict_proba\<close> (one row of class probabilities per document); either may raise.
\<close>

record pipeline =
  predict :: "pystr list \<Rightarrow> py_error + pystr list"
  predict_proba :: "pystr list \<Rightarrow> py_error + pyfloat list list"

text \<open>
  What the process finds around it, none of it code of the repository, taken as a
  parameter: the \<open>ImportError\<close> of the imports of numpy and scikit-learn at the top of
  the module (\<open>None\<close> when they succeeded), what \<open>import spacy; spacy.load("en_core_web_sm")\<close> does, what fitting the
  TF-IDF and naive Bayes pipeline gives, and the Unicode character database beyond ASCII
  (\<open>str.lower\<close> of a string with a non-ASCII code point, and the classes \<open>\w\<close> and
  \<open>\s\<close> of \<open>re\<close> on non-ASCII code points).
\<close>

record runtime =
  ml_import :: "py_error option"
  spacy_load :: "py_error + annotator"
  pipeline_fit :: "pystr list \<Rightarrow> pystr list \<Rightarrow> py_error + pipeline"
  unicode_lower :: "pystr \<Rightarrow> pystr"
  unicode_isalnum :: "codepoint \<Rightarrow> bool"
  unicode_isspace :: "codepoint \<Rightarrow> bool"

definition ML_AVAILABLE :: "runtime \<Rightarrow> bool" where
  "ML_AVAILABLE rt = (ml_import rt = None)"

subsection \<open>\<open>str.lower\<close> and \<open>re.sub\<close>\<close>

definition ascii_lower :: "codepoint \<Rightarrow> codepoint" where
  "ascii_lower c = (if 65 \<le> c \<and> c \<le> 90 then c + 32 else c)"

definition str_lower :: "runtime \<Rightarrow> pystr \<Rightarrow> pystr" where
  "str_lower rt s = (if list_all (\<lambda>c. c < 128) s then map ascii_lower s else unicode_lower rt s)"

text \<open>
  \<open>\w\<close> on a \<open>str\<close> pattern: alphanumeric or the underscore. \<open>\s\<close>: whitespace, which
  in ASCII is tab to carriage return, the four separators 28 to 31, and the space.
\<close>

definition is_word_char :: "runtime \<Rightarrow> codepoint \<Rightarrow> bool" where
  "is_word_char rt c =
     (if c < 128
      then (48 \<le> c \<and> c \<le> 57) \<or> (65 \<le> c \<and> c \<le> 90) \<or> (97 \<le> c \<and> c \<le> 122) \<or> c = 95
      else unicode_isalnum rt c)"

definition is_space_char :: "runtime \<Rightarrow> codepoint \<Rightarrow> bool" where
  "is_space_char rt c =
     (if c < 128
      then (9 \<le> c \<and> c \<le> 13) \<or> (28 \<le> c \<and> c \<le> 31) \<or> c = 32
      else unicode_isspace rt c)"

text \<open>
  The one shape of pattern the module uses: a negated set of character classes,
  \<open>[^\w\s]\<close>. A match is a single code point, so \<open>re.sub\<close> scans the string from the
  left, puts the replacement for every matching code point and copies the others.
\<close>

datatype char_class = Word_class | Space_class

datatype regex = Not_in "char_class list"

fun in_class :: "runtime \<Rightarrow> char_class \<Rightarrow> codepoint \<Rightarrow> bool" where
  "in_class rt Word_class c = is_word_char rt c"
| "in_class rt Space_class c = is_space_char rt c"

fun matches_char :: "runtime \<Rightarrow> regex \<Rightarrow> codepoint \<Rightarrow> bool" where
  "matches_char rt (Not_in ks) c = (\<not> list_ex (\<lambda>k. in_class rt k c) ks)"

fun re_sub :: "runtime \<Rightarrow> regex \<Rightarrow> pystr \<Rightarrow> pystr \<Rightarrow> pystr" where
  "re_sub rt p repl [] = []"
| "re_sub rt p repl (c # cs) =
     (if matches_char rt p c then repl @ re_sub rt p repl cs else c # re_sub rt p repl cs)"

fun join :: "pystr \<Rightarrow> pystr list \<Rightarrow> pystr" where
  "join sep [] = []"
| "join sep [x] = x"
| "join sep (x # y # ys) = x @ sep @ join sep (y # ys)"

section \<open>Module state: the global \<open>_nlp\<close> and the log\<close>

datatype log_record = Info pystr | Warning pystr | Error pystr

record state =
  nlp_global :: "annotator option"
  logged :: "log_record list"

text \<open>
  The state after the first lines of the module: \<open>_nlp = None\<close>, and one warning when the
  machine-learning imports failed.
\<close>

definition module_state :: "runtime \<Rightarrow> state" where
  "module_state rt =
     \<lparr>nlp_global = None,
      logged = (case ml_import rt of
                  None \<Rightarrow> []
                | Some e \<Rightarrow> [Warning (py ''ML dependencies not available: '' @ str_of e
                                      @ py ''. AI services will be limited.'')])\<rparr>"

definition get_nlp_model :: "runtime \<Rightarrow> state \<Rightarrow> annotator option \<times> state" where
  "get_nlp_model rt st =
     (case nlp_global st of
        Some a \<Rightarrow> (Some a, st)
      | None \<Rightarrow>
          (case spacy_load rt of
             Inr a \<Rightarrow>
               (Some a, st\<lparr>nlp_global := Some a,
                           logged := logged st @ [Info (py ''spaCy model loaded successfully'')]\<rparr>)
           | Inl (OSError m) \<Rightarrow>
               (None, st\<lparr>nlp_global := None,
                         logged := logged st
                           @ [Warning (py ''spaCy model not found. Using simple tokenization instead.'')]\<rparr>)
           | Inl e \<Rightarrow>
               (None, st\<lparr>nlp_global := None,
                         logged := logged st
                           @ [Warning (py ''Failed to load spaCy model: '' @ str_of e
                                       @ py ''. Using simple tokenization instead.'')]\<rparr>)))"

definition preprocess_text :: "runtime \<Rightarrow> state \<Rightarrow> pystr \<Rightarrow> (py_error + pystr) \<times> state" where
  "preprocess_text rt st text =
     (case get_nlp_model rt st of
        (Some nlp, st') \<Rightarrow>
          (case nlp (str_lower rt text) of
             Inl e \<Rightarrow> (Inl e, st')
           | Inr doc \<Rightarrow>
               (Inr (join (py '' '')
                      (map lemma_of (filter (\<lambda>t. \<not> is_stop t \<and> \<not> is_punct t) doc))), st'))
      | (None, st') \<Rightarrow>
          (Inr (re_sub rt (Not_in [Word_class, Space_class]) [] (str_lower rt text)), st'))"

section \<open>Training data\<close>

definition TRIAGE_TRAINING_DATA :: "(pystr \<times> pystr) list" where
  "TRIAGE_TRAINING_DATA =
    [(py ''I have a mild headache'', py ''Low''),
     (py ''Slight cough for one day'', py ''Low''),
     (py ''Runny nose and sneezing'', py ''Low''),
     (py ''Minor cuts and scrapes'', py ''Low''),
     (py ''Mild sore throat'', py ''Low''),
     (py ''Slight fever below 38'' @ [176] @ py ''C'', py ''Low''),
     (py ''Mild joint pain'', py ''Low''),
     (py ''Minor skin rash'', py ''Low''),
     (py ''Persistent headache for several days'', py ''Medium''),
     (py ''Fever between 38'' @ [176] @ py ''C and 39'' @ [176] @ py ''C'', py ''Medium''),
     (py ''Cough with colored phlegm'', py ''Medium''),
     (py ''Dehydration with some dizziness'', py ''Medium''),
     (py ''Persistent vomiting'', py ''Medium''),
     (py ''Flu symptoms with high fever'', py ''Medium''),
     (py ''Ear pain with discharge'', py ''Medium''),
     (py ''Urinary tract infection symptoms'', py ''Medium''),
     (py ''Severe abdominal pain'', py ''High''),
     (py ''Difficulty breathing'', py ''High''),
     (py ''High fever above 39'' @ [176] @ py ''C'', py ''High''),
     (py ''Chest pain'', py ''High''),
     (py ''Severe headache with neck stiffness'', py ''High''),
     (py ''Sudden vision changes'', py ''High''),
     (py ''Deep cut requiring stitches'', py ''High''),
     (py ''Broken bone or suspected fracture'', py ''High''),
     (py ''Unconsciousness or fainting'', py ''Critical''),
     (py ''Severe chest pain radiating to arm or jaw'', py ''Critical''),
     (py ''Inability to breathe'', py ''Critical''),
     (py ''Severe bleeding that won't stop'', py ''Critical''),
     (py ''Poisoning or overdose'', py ''Critical''),
     (py ''Seizure'', py ''Critical''),
     (py ''Severe burn'', py ''Critical''),
     (py ''Stroke symptoms like facial drooping'', py ''Critical'')]"

definition MEDICAL_TRAINING_DATA :: "(pystr \<times> pystr) list" where
  "MEDICAL_TRAINING_DATA =
    [(py ''Mild rhinitis with nasal discharge'', py ''Low''),
     (py ''Slight pharyngitis with minimal discomfort'', py ''Low''),
     (py ''Minor contusions'', py ''Low''),
     (py ''Localized dermatitis'', py ''Low''),
     (py ''Moderate pyrexia with myalgia'', py ''Medium''),
     (py ''Persistent emesis'', py ''Medium''),
     (py ''Otitis media with effusion'', py ''Medium''),
     (py ''Uncomplicated cystitis'', py ''Medium''),
     (py ''Acute dyspnea'', py ''High''),
     (py ''Severe cephalgia with photophobia'', py ''High''),
     (py ''Suspected appendicitis'', py ''High''),
     (py ''Open fracture requiring reduction'', py ''High''),
     (py ''Syncope with irregular cardiac rhythm'', py ''Critical''),
     (py ''Acute myocardial infarction'', py ''Critical''),
     (py ''Status epilepticus'', py ''Critical''),
     (py ''Cerebrovascular accident with hemiparesis'', py ''Critical'')]"

definition ALL_TRAINING_DATA :: "(pystr \<times> pystr) list" where
  "ALL_TRAINING_DATA = TRIAGE_TRAINING_DATA @ MEDICAL_TRAINING_DATA"

section \<open>The class \<open>TriageAI\<close>\<close>

record TriageAI =
  model :: "pipeline option"
  confidence_threshold :: pyfloat

record assessment =
  severity :: pystr
  recommendation :: pystr
  confidence :: pyfloat

text \<open>The list comprehension over the training sentences: the first exception ends it.\<close>

fun preprocess_all :: "runtime \<Rightarrow> state \<Rightarrow> pystr list \<Rightarrow> (py_error + pystr list) \<times> state" where
  "preprocess_all rt st [] = (Inr [], st)"
| "preprocess_all rt st (s # ss) =
     (case preprocess_text rt st s of
        (Inl e, st') \<Rightarrow> (Inl e, st')
      | (Inr p, st') \<Rightarrow>
          (case preprocess_all rt st' ss of
             (Inl e, st'') \<Rightarrow> (Inl e, st'')
           | (Inr ps, st'') \<Rightarrow> (Inr (p # ps), st'')))"

definition initialize_model :: "runtime \<Rightarrow> TriageAI \<Rightarrow> state \<Rightarrow> TriageAI \<times> state" where
  "initialize_model rt self st =
     (if \<not> ML_AVAILABLE rt
      then (self\<lparr>model := None\<rparr>,
            st\<lparr>logged := logged st
                 @ [Warning (py ''Cannot initialize model: ML dependencies not available'')]\<rparr>)
      else
        (let symptoms = map fst ALL_TRAINING_DATA;
             severities = map snd ALL_TRAINING_DATA
         in case preprocess_all rt st symptoms of
              (Inl e, st') \<Rightarrow>
                (self\<lparr>model := None\<rparr>,
                 st'\<lparr>logged := logged st'
                       @ [Error (py ''Error initializing triage model: '' @ str_of e)]\<rparr>)
            | (Inr preprocessed_symptoms, st') \<Rightarrow>
                (case pipeline_fit rt preprocessed_symptoms severities of
                   Inl e \<Rightarrow>
                     (self\<lparr>model := None\<rparr>,
                      st'\<lparr>logged := logged st'
                            @ [Error (py ''Error initializing triage model: '' @ str_of e)]\<rparr>)
                 | Inr m \<Rightarrow>
                     (self\<lparr>model := Some m\<rparr>,
                      st'\<lparr>logged := logged st'
                            @ [Info (py ''Triage AI model successfully initialized'')]\<rparr>))))"

text \<open>The constructor \<open>TriageAI.__init__\<close>.\<close>

definition TriageAI_init :: "runtime \<Rightarrow> state \<Rightarrow> TriageAI \<times> state" where
  "TriageAI_init rt st =
     (let self = \<lparr>model = None, confidence_threshold = Finite float_0_6\<rparr>
      in if ML_AVAILABLE rt then initialize_model rt self st
         else (self,
               st\<lparr>logged := logged st
                    @ [Warning (py ''ML dependencies not available. Triage AI will use fallback mode.'')]\<rparr>))"

definition recommendations :: "(pystr \<times> pystr) list" where
  "recommendations =
    [(py ''Low'', py ''Your symptoms suggest a non-urgent condition. Rest, hydrate, and monitor symptoms. If they persist for more than 2-3 days or worsen, schedule a regular appointment.''),
     (py ''Medium'', py ''Your symptoms may require medical attention. Schedule an appointment in the next 1-2 days. Monitor for worsening symptoms.''),
     (py ''High'', py ''Your symptoms require prompt medical attention. Please schedule an urgent appointment or visit urgent care within 24 hours.''),
     (py ''Critical'', py ''Your symptoms suggest a potentially life-threatening condition. Seek immediate emergency medical attention or call emergency services.'')]"

definition default_recommendation :: pystr where
  "default_recommendation = py ''Please consult with a healthcare professional for proper evaluation.''"

definition disclaimer :: pystr where
  "disclaimer = [10, 10] @ py ''Note: This is an initial assessment with limited confidence. A healthcare professional should verify this assessment.''"

definition generate_recommendation :: "TriageAI \<Rightarrow> pystr \<Rightarrow> pyfloat \<Rightarrow> pystr \<Rightarrow> pystr" where
  "generate_recommendation self sev conf symptoms =
     (let base_recommendation =
            (case map_of recommendations sev of
               Some r \<Rightarrow> r
             | None \<Rightarrow> default_recommendation)
      in if float_lt conf (confidence_threshold self)
         then base_recommendation @ disclaimer
         else base_recommendation)"

text \<open>The two fixed results of \<open>assess_symptoms\<close> that carry no prediction.\<close>

definition no_model_result :: assessment where
  "no_model_result =
     \<lparr>severity = py ''Unknown'',
      recommendation = py ''Error in AI model. Please consult with a healthcare professional directly.'',
      confidence = Finite 0\<rparr>"

definition exception_result :: assessment where
  "exception_result =
     \<lparr>severity = py ''Unknown'',
      recommendation = py ''An error occurred during assessment. Please consult with a healthcare professional.'',
      confidence = Finite 0\<rparr>"

text \<open>The body of the \<open>try\<close> of \<open>assess_symptoms\<close>: any call in it may raise.\<close>

definition assess_try ::
  "runtime \<Rightarrow> TriageAI \<Rightarrow> pipeline \<Rightarrow> state \<Rightarrow> pystr \<Rightarrow> (py_error + assessment) \<times> state" where
  "assess_try rt self m st symptoms_text =
     (case preprocess_text rt st symptoms_text of
        (Inl e, st') \<Rightarrow> (Inl e, st')
      | (Inr preprocessed_symptoms, st') \<Rightarrow>
          (and_then (predict m [preprocessed_symptoms]) (\<lambda>labels.
           and_then (item0 labels) (\<lambda>sev.
           and_then (predict_proba m [preprocessed_symptoms]) (\<lambda>rows.
           and_then (item0 rows) (\<lambda>probabilities.
           and_then (if ML_AVAILABLE rt then np_max probabilities
                     else if length probabilities > 0 then item0 probabilities
                     else Inr (Finite 0)) (\<lambda>conf.
           Inr \<lparr>severity = sev,
                recommendation = generate_recommendation self sev conf symptoms_text,
                confidence = conf\<rparr>))))), st'))"

definition assess_symptoms :: "runtime \<Rightarrow> TriageAI \<Rightarrow> state \<Rightarrow> pystr \<Rightarrow> assessment \<times> state" where
  "assess_symptoms rt self st symptoms_text =
     (case model self of
        None \<Rightarrow> (no_model_result, st)
      | Some m \<Rightarrow>
          (case assess_try rt self m st symptoms_text of
             (Inr r, st') \<Rightarrow> (r, st')
           | (Inl e, st') \<Rightarrow>
               (exception_result,
                st'\<lparr>logged := logged st'
                      @ [Error (py ''Error in symptom assessment: '' @ str_of e)]\<rparr>)))"

text \<open>
  The module-level instance \<open>triage_ai = TriageAI()\<close>, built when the module is imported,
  with the state the construction leaves, and the function the routes call.
\<close>

definition triage_ai :: "runtime \<Rightarrow> TriageAI \<times> state" where
  "triage_ai rt = TriageAI_init rt (module_state rt)"

definition assess_patient_symptoms :: "runtime \<Rightarrow> state \<Rightarrow> pystr \<Rightarrow> assessment \<times> state" where
  "assess_patient_symptoms rt st symptoms_text =
     assess_symptoms rt (fst (triage_ai rt)) st symptoms_text"

section \<open>Notions the properties are stated with\<close>

text \<open>
  The fallback of the normaliser in the words of the specification: the text in lower
  case, with every code point that is neither a word character nor whitespace removed.
\<close>

definition spec_regex_normalize :: "runtime \<Rightarrow> pystr \<Rightarrow> pystr" where
  "spec_regex_normalize rt text =
     filter (\<lambda>c. is_word_char rt c \<or> is_space_char rt c) (str_lower rt text)"

text \<open>
  A sequence of calls of \<open>get_nlp_model\<close> in one process. What the environment would
  answer to a load may differ from call to call, so every call has its own \<open>runtime\<close>.
  A successful load leaves its line in the log, which counts the loads.
\<close>

fun get_nlp_model_calls :: "runtime list \<Rightarrow> state \<Rightarrow> state" where
  "get_nlp_model_calls [] st = st"
| "get_nlp_model_calls (rt # rts) st = get_nlp_model_calls rts (snd (get_nlp_model rt st))"

definition successful_loads :: "state \<Rightarrow> nat" where
  "successful_loads st =
     length (filter (\<lambda>r. r = Info (py ''spaCy model loaded successfully'')) (logged st))"

text \<open>
  What scikit-learn promises of a fitted classifier, and the module relies on: a
  predicted label is one of the labels it was fitted on, and every entry of
  \<open>predict_proba\<close> is a probability.
\<close>

definition is_probability :: "pyfloat \<Rightarrow> bool" where
  "is_probability x = (case x of Finite r \<Rightarrow> 0 \<le> r \<and> r \<le> 1 | _ \<Rightarrow> False)"

definition sklearn_contract :: "runtime \<Rightarrow> bool" where
  "sklearn_contract rt =
     (\<forall>X y m. pipeline_fit rt X y = Inr m \<longrightarrow>
        (\<forall>docs labels. predict m docs = Inr labels \<longrightarrow> set labels \<subseteq> set y) \<and>
        (\<forall>docs rows. predict_proba m docs = Inr rows \<longrightarrow>
           list_all (list_all is_probability) rows))"

subsection \<open>Example environments\<close>

text \<open>
  A classifier that answers every document with one label and one row of probabilities
  (in scikit-learn's order of the classes: Critical, High, Low, Medium), a fit that
  returns it for the first training label, and a process without spaCy.
\<close>

definition constant_pipeline :: "pystr \<Rightarrow> pipeline" where
  "constant_pipeline l =
     \<lparr>predict = (\<lambda>docs. Inr (map (\<lambda>d. l) docs)),
      predict_proba =
        (\<lambda>docs. Inr (map (\<lambda>d. [Finite (1/10), Finite (2/10), Finite (4/10), Finite (3/10)]) docs))\<rparr>"

definition failing_pipeline :: pipeline where
  "failing_pipeline =
     \<lparr>predict = (\<lambda>docs. Inl (ValueError (py ''empty vocabulary''))),
      predict_proba = (\<lambda>docs. Inl (ValueError (py ''empty vocabulary'')))\<rparr>"

definition example_runtime :: runtime where
  "example_runtime =
     \<lparr>ml_import = None,
      spacy_load = Inl (OSError (py ''Can't find model en_core_web_sm'')),
      pipeline_fit =
        (\<lambda>X y. case y of
                  [] \<Rightarrow> Inl (ValueError (py ''no samples''))
                | l # ls \<Rightarrow> Inr (constant_pipeline l)),
      unicode_lower = (\<lambda>s. s),
      unicode_isalnum = (\<lambda>c. False),
      unicode_isspace = (\<lambda>c. False)\<rparr>"

definition degraded_runtime :: runtime where
  "degraded_runtime = example_runtime\<lparr>ml_import := Some (ImportError (py ''No module named sklearn''))\<rparr>"

definition whole_text_annotator :: annotator where
  "whole_text_annotator = (\<lambda>s. Inr [\<lparr>lemma_of = s, is_stop = False, is_punct = False\<rparr>])"

definition spacy_runtime :: runtime where
  "spacy_runtime = example_runtime\<lparr>spacy_load := Inr whole_text_annotator\<rparr>"

definition example_triage :: TriageAI where
  "example_triage = \<lparr>model = Some (constant_pipeline (py ''Low'')), confidence_threshold = Finite float_0_6\<rparr>"

definition failing_triage :: TriageAI where
  "failing_triage = \<lparr>model = Some failing_pipeline, confidence_threshold = Finite float_0_6\<rparr>"

section \<open>Properties\<close>

subsection \<open>Floats\<close>

lemma float_0_6_close: "\<bar>float_0_6 - 6 / 10\<bar> < 1 / 2 ^ 54"
  by (simp add: float_0_6_def)

lemma float_max2_Finite: "float_max2 (Finite a) (Finite b) = Finite (max a b)"
  by (simp add: float_max2_def max_def)

lemma foldl_float_max2_Finite:
  "foldl float_max2 (Finite p) (map Finite ps) = Finite (Max (set (p # ps)))"
proof (induction ps arbitrary: p)
  case Nil
  show ?case by simp
next
  case (Cons q ps)
  have "Max (set (p # q # ps)) = Max (set (max p q # ps))"
    by (cases "ps = []") (simp_all add: max.assoc)
  with Cons show ?case
    by (simp add: float_max2_Finite)
qed

lemma float_max2_probability:
  "is_probability a \<Longrightarrow> is_probability b \<Longrightarrow> is_probability (float_max2 a b)"
  by (auto simp: float_max2_def is_probability_def split: pyfloat.splits)

lemma foldl_float_max2_probability:
  "is_probability x \<Longrightarrow> list_all is_probability xs \<Longrightarrow> is_probability (foldl float_max2 x xs)"
  by (induction xs arbitrary: x) (simp_all add: float_max2_probability)

lemma np_max_probability:
  "list_all is_probability xs \<Longrightarrow> np_max xs = Inr c \<Longrightarrow> is_probability c"
  by (cases xs) (auto simp: foldl_float_max2_probability)

lemma item0_member: "item0 xs = Inr x \<Longrightarrow> x \<in> set xs"
  by (cases xs) (auto simp: item0_def)

lemma sum_list_le_length_times:
  fixes xs :: "real list"
  shows "(\<And>x. x \<in> set xs \<Longrightarrow> x \<le> M) \<Longrightarrow> sum_list xs \<le> real (length xs) * M"
  by (induction xs) (auto simp: algebra_simps intro: add_mono)

lemma Max_of_four_at_least_quarter:
  fixes ps :: "real list"
  assumes "length ps = 4" and "sum_list ps = 1"
  shows "1 / 4 \<le> Max (set ps)"
proof -
  from assms(1) have ne: "set ps \<noteq> {}" by auto
  have "sum_list ps \<le> real (length ps) * Max (set ps)"
    by (rule sum_list_le_length_times) simp
  with assms show ?thesis by simp
qed

subsection \<open>The regular expression\<close>

lemma re_sub_delete:
  "re_sub rt (Not_in ks) [] s = filter (\<lambda>c. list_ex (\<lambda>k. in_class rt k c) ks) s"
  by (induction s) simp_all

lemma re_sub_word_space:
  "re_sub rt (Not_in [Word_class, Space_class]) [] s =
     filter (\<lambda>c. is_word_char rt c \<or> is_space_char rt c) s"
  by (simp add: re_sub_delete)

subsection \<open>The lazily loaded annotator\<close>

lemma fst_get_nlp_model:
  "fst (get_nlp_model rt st) =
     (case nlp_global st of
        Some a \<Rightarrow> Some a
      | None \<Rightarrow> (case spacy_load rt of Inr a \<Rightarrow> Some a | Inl e \<Rightarrow> None))"
  by (simp add: get_nlp_model_def split: option.splits sum.splits py_error.splits)

lemma nlp_global_get_nlp_model:
  "nlp_global (snd (get_nlp_model rt st)) = fst (get_nlp_model rt st)"
  by (simp add: get_nlp_model_def split: option.splits sum.splits py_error.splits)

lemma get_nlp_model_cached:
  "nlp_global st = Some a \<Longrightarrow> get_nlp_model rt st = (Some a, st)"
  by (simp add: get_nlp_model_def)

lemma get_nlp_model_settled:
  "nlp_global st' = fst (get_nlp_model rt st) \<Longrightarrow>
     fst (get_nlp_model rt st') = fst (get_nlp_model rt st)"
  by (simp add: fst_get_nlp_model split: option.splits sum.splits)

lemma get_nlp_model_failed:
  assumes "nlp_global st = None" and "spacy_load rt = Inl e"
  shows "fst (get_nlp_model rt st) = None"
    and "nlp_global (snd (get_nlp_model rt st)) = None"
    and "\<exists>w. logged (snd (get_nlp_model rt st)) = logged st @ [Warning w]"
  using assms by (simp_all add: get_nlp_model_def split: py_error.splits)

lemma failed_load_is_tried_again:
  assumes "nlp_global st = None" and "spacy_load rt = Inl e" and "spacy_load rt' = Inr a"
  shows "fst (get_nlp_model rt' (snd (get_nlp_model rt st))) = Some a"
  using assms by (simp add: fst_get_nlp_model get_nlp_model_failed(2))

lemma get_nlp_model_calls_cached:
  "nlp_global st = Some a \<Longrightarrow> get_nlp_model_calls rts st = st"
  by (induction rts) (simp_all add: get_nlp_model_cached)

lemma successful_loads_step:
  "successful_loads (snd (get_nlp_model rt st)) =
     successful_loads st
       + (case nlp_global st of
            Some a \<Rightarrow> 0
          | None \<Rightarrow> (case spacy_load rt of Inr a \<Rightarrow> 1 | Inl e \<Rightarrow> 0))"
  by (simp add: get_nlp_model_def successful_loads_def
        split: option.splits sum.splits py_error.splits)

lemma successful_loads_calls:
  "successful_loads st \<le> (case nlp_global st of None \<Rightarrow> 0 | Some a \<Rightarrow> 1) \<Longrightarrow>
     successful_loads (get_nlp_model_calls rts st) \<le> 1"
proof (induction rts arbitrary: st)
  case Nil
  then show ?case by (simp split: option.splits)
next
  case (Cons rt rts)
  have "successful_loads (snd (get_nlp_model rt st))
          \<le> (case nlp_global (snd (get_nlp_model rt st)) of None \<Rightarrow> 0 | Some a \<Rightarrow> 1)"
    using Cons.prems
    by (simp add: successful_loads_step nlp_global_get_nlp_model fst_get_nlp_model
          split: option.splits sum.splits)
  then have "successful_loads (get_nlp_model_calls rts (snd (get_nlp_model rt st))) \<le> 1"
    by (rule Cons.IH)
  then show ?case by simp
qed

lemma successful_loads_module_state: "successful_loads (module_state rt) = 0"
  by (simp add: successful_loads_def module_state_def split: option.splits)

subsection \<open>The normaliser\<close>

lemma fst_preprocess_text:
  "fst (preprocess_text rt st text) =
     (case fst (get_nlp_model rt st) of
        Some nlp \<Rightarrow>
          (case nlp (str_lower rt text) of
             Inl e \<Rightarrow> Inl e
           | Inr doc \<Rightarrow>
               Inr (join (py '' '')
                     (map lemma_of (filter (\<lambda>t. \<not> is_stop t \<and> \<not> is_punct t) doc))))
      | None \<Rightarrow> Inr (re_sub rt (Not_in [Word_class, Space_class]) [] (str_lower rt text)))"
  by (simp add: preprocess_text_def split: prod.splits option.splits sum.splits)

lemma snd_preprocess_text: "snd (preprocess_text rt st text) = snd (get_nlp_model rt st)"
  by (simp add: preprocess_text_def split: prod.splits option.splits sum.splits)

lemma preprocess_text_fallback:
  assumes "nlp_global st = None" and "spacy_load rt = Inl e"
  shows "fst (preprocess_text rt st text) =
           Inr (re_sub rt (Not_in [Word_class, Space_class]) [] (str_lower rt text))"
  using assms by (simp add: fst_preprocess_text fst_get_nlp_model)

subsection \<open>The orchestrator\<close>

lemma fst_assess_try:
  "fst (assess_try rt self m st text) =
     (case fst (preprocess_text rt st text) of
        Inl e \<Rightarrow> Inl e
      | Inr pre \<Rightarrow>
          (and_then (predict m [pre]) (\<lambda>labels.
           and_then (item0 labels) (\<lambda>sev.
           and_then (predict_proba m [pre]) (\<lambda>rows.
           and_then (item0 rows) (\<lambda>probabilities.
           and_then (if ML_AVAILABLE rt then np_max probabilities
                     else if length probabilities > 0 then item0 probabilities
                     else Inr (Finite 0)) (\<lambda>conf.
           Inr \<lparr>severity = sev,
                recommendation = generate_recommendation self sev conf text,
                confidence = conf\<rparr>)))))))"
  by (simp add: assess_try_def split: prod.splits sum.splits)

lemma snd_assess_try: "snd (assess_try rt self m st text) = snd (get_nlp_model rt st)"
proof -
  obtain r st' where p: "preprocess_text rt st text = (r, st')"
    by (cases "preprocess_text rt st text")
  then have "st' = snd (get_nlp_model rt st)"
    using snd_preprocess_text [of rt st "text"] by simp
  with p show ?thesis
    by (simp add: assess_try_def split: sum.splits)
qed

lemma fst_assess_symptoms:
  "fst (assess_symptoms rt self st text) =
     (case model self of
        None \<Rightarrow> no_model_result
      | Some m \<Rightarrow>
          (case fst (assess_try rt self m st text) of
             Inr r \<Rightarrow> r
           | Inl e \<Rightarrow> exception_result))"
  by (simp add: assess_symptoms_def split: option.splits prod.splits sum.splits)

lemma nlp_global_assess_symptoms:
  "nlp_global (snd (assess_symptoms rt self st text)) =
     (case model self of None \<Rightarrow> nlp_global st | Some m \<Rightarrow> fst (get_nlp_model rt st))"
proof (cases "model self")
  case None
  then show ?thesis by (simp add: assess_symptoms_def)
next
  case (Some m)
  obtain r st' where a: "assess_try rt self m st text = (r, st')"
    by (cases "assess_try rt self m st text")
  then have "st' = snd (get_nlp_model rt st)"
    using snd_assess_try [of rt self m st "text"] by simp
  with Some a show ?thesis
    by (simp add: assess_symptoms_def nlp_global_get_nlp_model split: sum.splits)
qed

lemma assess_symptoms_same_annotator:
  assumes "fst (get_nlp_model rt st1) = fst (get_nlp_model rt st2)"
  shows "fst (assess_symptoms rt self st1 text) = fst (assess_symptoms rt self st2 text)"
  using assms
  by (simp add: fst_assess_symptoms fst_assess_try fst_preprocess_text split: option.splits)

lemma annotator_after_assess_symptoms:
  "fst (get_nlp_model rt (snd (assess_symptoms rt self st other))) = fst (get_nlp_model rt st)"
proof (cases "model self")
  case None
  then show ?thesis by (simp add: assess_symptoms_def)
next
  case (Some m)
  then show ?thesis
    by (intro get_nlp_model_settled) (simp add: nlp_global_assess_symptoms)
qed

subsection \<open>Construction of the instance\<close>

lemma initialize_model_threshold:
  "confidence_threshold (fst (initialize_model rt self st)) = confidence_threshold self"
  by (simp add: initialize_model_def Let_def split: prod.splits sum.splits)

lemma triage_ai_threshold: "confidence_threshold (fst (triage_ai rt)) = Finite float_0_6"
  by (simp add: triage_ai_def TriageAI_init_def initialize_model_threshold Let_def)

lemma initialize_model_Some:
  "model (fst (initialize_model rt self st)) = Some m \<Longrightarrow>
     ML_AVAILABLE rt \<and> (\<exists>X. pipeline_fit rt X (map snd ALL_TRAINING_DATA) = Inr m)"
  by (auto simp: initialize_model_def Let_def split: if_splits prod.splits sum.splits)

lemma triage_ai_model_Some:
  "model (fst (triage_ai rt)) = Some m \<Longrightarrow>
     ML_AVAILABLE rt \<and> (\<exists>X. pipeline_fit rt X (map snd ALL_TRAINING_DATA) = Inr m)"
  by (auto simp: triage_ai_def TriageAI_init_def Let_def
        dest: initialize_model_Some split: if_splits)

lemma triage_ai_no_ml: "\<not> ML_AVAILABLE rt \<Longrightarrow> model (fst (triage_ai rt)) = None"
  by (simp add: triage_ai_def TriageAI_init_def Let_def)

lemma triage_ai_fit_fails:
  assumes "\<forall>X y. \<exists>e. pipeline_fit rt X y = Inl e"
  shows "model (fst (triage_ai rt)) = None"
proof (cases "model (fst (triage_ai rt))")
  case None
  then show ?thesis .
next
  case (Some m)
  then obtain X where "pipeline_fit rt X (map snd ALL_TRAINING_DATA) = Inr m"
    using triage_ai_model_Some by blast
  moreover obtain e where "pipeline_fit rt X (map snd ALL_TRAINING_DATA) = Inl e"
    using assms by blast
  ultimately show ?thesis by simp
qed

lemma training_labels:
  "set (map snd ALL_TRAINING_DATA) = {py ''Low'', py ''Medium'', py ''High'', py ''Critical''}"
  by (auto simp: ALL_TRAINING_DATA_def TRIAGE_TRAINING_DATA_def MEDICAL_TRAINING_DATA_def)

lemma assess_symptoms_no_model:
  "model self = None \<Longrightarrow> assess_symptoms rt self st text = (no_model_result, st)"
  by (simp add: assess_symptoms_def)

lemma and_then_InrE:
  assumes "and_then r f = Inr y"
  obtains x where "r = Inr x" and "f x = Inr y"
  using assms by (cases r) (simp_all add: and_then_def)

lemma assess_try_InrD:
  assumes "fst (assess_try rt self m st text) = Inr r"
  shows "\<exists>pre ls sev rows ps conf.
           predict m [pre] = Inr ls \<and> item0 ls = Inr sev
           \<and> predict_proba m [pre] = Inr rows \<and> item0 rows = Inr ps
           \<and> (if ML_AVAILABLE rt then np_max ps
               else if length ps > 0 then item0 ps else Inr (Finite 0)) = Inr conf
           \<and> severity r = sev \<and> confidence r = conf"
proof (cases "fst (preprocess_text rt st text)")
  case (Inl e)
  with assms show ?thesis by (simp add: fst_assess_try)
next
  case (Inr pre)
  with assms have "and_then (predict m [pre]) (\<lambda>labels.
           and_then (item0 labels) (\<lambda>sev.
           and_then (predict_proba m [pre]) (\<lambda>rows.
           and_then (item0 rows) (\<lambda>probabilities.
           and_then (if ML_AVAILABLE rt then np_max probabilities
                     else if length probabilities > 0 then item0 probabilities
                     else Inr (Finite 0)) (\<lambda>conf.
           Inr \<lparr>severity = sev,
                recommendation = generate_recommendation self sev conf text,
                confidence = conf\<rparr>))))) = Inr r"
    by (simp only: fst_assess_try sum.case)
  then show ?thesis
  proof (elim and_then_InrE)
    fix ls sev rows ps conf
    assume "predict m [pre] = Inr ls" "item0 ls = Inr sev"
      "predict_proba m [pre] = Inr rows" "item0 rows = Inr ps"
      "(if ML_AVAILABLE rt then np_max ps
        else if length ps > 0 then item0 ps else Inr (Finite 0)) = Inr conf"
      "Inr \<lparr>severity = sev,
            recommendation = generate_recommendation self sev conf text,
            confidence = conf\<rparr> = Inr r"
    moreover from this(6) have "severity r = sev" "confidence r = conf" by auto
    ultimately show ?thesis by blast
  qed
qed

lemma assess_try_well_formed:
  assumes ok: "fst (assess_try rt self m st text) = Inr r"
    and labels: "\<And>docs ls. predict m docs = Inr ls \<Longrightarrow> set ls \<subseteq> L"
    and probs: "\<And>docs rows. predict_proba m docs = Inr rows \<Longrightarrow>
                  list_all (list_all is_probability) rows"
  shows "severity r \<in> L \<and> is_probability (confidence r)"
proof -
  from assess_try_InrD [OF ok] obtain pre ls sev rows ps conf where
    p1: "predict m [pre] = Inr ls" and p2: "item0 ls = Inr sev"
    and p3: "predict_proba m [pre] = Inr rows" and p4: "item0 rows = Inr ps"
    and p5: "(if ML_AVAILABLE rt then np_max ps
              else if length ps > 0 then item0 ps else Inr (Finite 0)) = Inr conf"
    and r: "severity r = sev" "confidence r = conf"
    by blast
  have "set ls \<subseteq> L" using p1 by (rule labels)
  with item0_member [OF p2] have sev: "sev \<in> L" by blast
  have "list_all (list_all is_probability) rows" using p3 by (rule probs)
  with item0_member [OF p4] have all: "list_all is_probability ps"
    by (simp add: list_all_iff)
  have "is_probability conf"
  proof (cases "ML_AVAILABLE rt")
    case True
    with p5 have "np_max ps = Inr conf" by simp
    with all show ?thesis by (rule np_max_probability)
  next
    case False
    show ?thesis
    proof (cases "length ps > 0")
      case True
      with False p5 have "item0 ps = Inr conf" by simp
      then have "conf \<in> set ps" by (rule item0_member)
      with all show ?thesis by (simp add: list_all_iff)
    next
      case False
      with \<open>\<not> ML_AVAILABLE rt\<close> p5 have "conf = Finite 0" by simp
      then show ?thesis by (simp add: is_probability_def)
    qed
  qed
  with sev r show ?thesis by simp
qed

lemma is_probability_unit_interval:
  "is_probability x \<Longrightarrow> \<exists>c. x = Finite c \<and> 0 \<le> c \<and> c \<le> 1"
  by (cases x) (simp_all add: is_probability_def)

lemma sklearn_contract_example: "sklearn_contract example_runtime"
  unfolding sklearn_contract_def
proof (intro allI impI)
  fix X y m
  assume "pipeline_fit example_runtime X y = Inr m"
  then obtain l where m: "m = constant_pipeline l" and l: "l \<in> set y"
    by (cases y) (auto simp: example_runtime_def)
  have "\<forall>docs labels. predict m docs = Inr labels \<longrightarrow> set labels \<subseteq> set y"
    using l by (auto simp: m constant_pipeline_def)
  moreover have "\<forall>docs rows. predict_proba m docs = Inr rows \<longrightarrow>
           list_all (list_all is_probability) rows"
    by (auto simp: m constant_pipeline_def is_probability_def list_all_iff)
  ultimately show "(\<forall>docs labels. predict m docs = Inr labels \<longrightarrow> set labels \<subseteq> set y) \<and>
        (\<forall>docs rows. predict_proba m docs = Inr rows \<longrightarrow>
           list_all (list_all is_probability) rows)" by (rule conjI)
qed

subsection \<open>The recommendation\<close>

lemma base_recommendation_no_newline:
  "10 \<notin> set (case map_of recommendations sev of
                 Some r \<Rightarrow> r
               | None \<Rightarrow> default_recommendation)"
  by (simp add: recommendations_def default_recommendation_def)

lemma disclaimer_newline: "10 \<in> set disclaimer"
  by (simp add: disclaimer_def)

section \<open>The claims\<close>

text \<open>
  C1 (totality of the assessment). \<open>assess_patient_symptoms\<close> is a total function of the
  model: for every text, every state and every behaviour of the libraries, raising
  included, it returns an assessment, because the \<open>except\<close> clause of
  \<open>assess_symptoms\<close> turns every exception of the body into a result. Provided the fitted
  classifier keeps scikit-learn's contract (its labels are training labels, its
  probabilities lie between 0 and 1), the severity of the result is one of Low, Medium,
  High, Critical and Unknown, and the confidence is a number of the interval from 0 to 1.
\<close>

theorem assess_patient_symptoms_total:
  assumes "sklearn_contract rt"
  shows "severity (fst (assess_patient_symptoms rt st text))
           \<in> {py ''Low'', py ''Medium'', py ''High'', py ''Critical'', py ''Unknown''}
         \<and> (\<exists>c. confidence (fst (assess_patient_symptoms rt st text)) = Finite c
                  \<and> 0 \<le> c \<and> c \<le> 1)"
proof -
  let ?self = "fst (triage_ai rt)"
  let ?r = "fst (assess_symptoms rt ?self st text)"
  have wf: "(severity ?r = py ''Unknown'' \<or> severity ?r \<in> set (map snd ALL_TRAINING_DATA))
            \<and> is_probability (confidence ?r)"
  proof (cases "model ?self")
    case None
    then show ?thesis
      by (simp add: fst_assess_symptoms no_model_result_def is_probability_def)
  next
    case (Some m)
    then obtain X where fit: "pipeline_fit rt X (map snd ALL_TRAINING_DATA) = Inr m"
      using triage_ai_model_Some by blast
    show ?thesis
    proof (cases "fst (assess_try rt ?self m st text)")
      case (Inl e)
      with Some show ?thesis
        by (simp add: fst_assess_symptoms exception_result_def is_probability_def)
    next
      case (Inr r)
      have "severity r \<in> set (map snd ALL_TRAINING_DATA) \<and> is_probability (confidence r)"
        using Inr
      proof (rule assess_try_well_formed)
        fix docs ls
        assume "predict m docs = Inr ls"
        with assms fit show "set ls \<subseteq> set (map snd ALL_TRAINING_DATA)"
          unfolding sklearn_contract_def by blast
      next
        fix docs rows
        assume "predict_proba m docs = Inr rows"
        with assms fit show "list_all (list_all is_probability) rows"
          unfolding sklearn_contract_def by blast
      qed
      with Some Inr show ?thesis by (simp add: fst_assess_symptoms)
    qed
  qed
  from wf have "severity ?r
      \<in> {py ''Low'', py ''Medium'', py ''High'', py ''Critical'', py ''Unknown''}"
    unfolding training_labels by blast
  moreover from wf have "\<exists>c. confidence ?r = Finite c \<and> 0 \<le> c \<and> c \<le> 1"
    by (simp add: is_probability_unit_interval)
  ultimately show ?thesis
    unfolding assess_patient_symptoms_def by (rule conjI)
qed

theorem assess_patient_symptoms_total_witness:
  "sklearn_contract example_runtime
   \<and> severity (fst (assess_patient_symptoms example_runtime (module_state example_runtime)
                     (py ''Severe chest pain radiating to arm or jaw'')))
       \<in> {py ''Low'', py ''Medium'', py ''High'', py ''Critical'', py ''Unknown''}
   \<and> (\<exists>c. confidence (fst (assess_patient_symptoms example_runtime (module_state example_runtime)
                             (py ''Severe chest pain radiating to arm or jaw''))) = Finite c
            \<and> 0 \<le> c \<and> c \<le> 1)"
  by (rule conjI [OF sklearn_contract_example
        assess_patient_symptoms_total [OF sklearn_contract_example]])

text \<open>
  C2 (degraded fallback). An orchestrator that holds no model answers every text with
  exactly the severity Unknown, the recommendation "Error in AI model. Please consult
  with a healthcare professional directly." and the confidence 0.0, and leaves the state
  as it was. The module-level instance holds no model when the imports of the statistical
  libraries failed, and when fitting raises.
\<close>

theorem degraded_fallback:
  "(model self = None \<longrightarrow>
      assess_symptoms rt self st text =
          (\<lparr>severity = py ''Unknown'',
            recommendation = py ''Error in AI model. Please consult with a healthcare professional directly.'',
            confidence = Finite 0\<rparr>, st))
   \<and> (\<not> ML_AVAILABLE rt \<longrightarrow>
      assess_patient_symptoms rt st text =
          (\<lparr>severity = py ''Unknown'',
            recommendation = py ''Error in AI model. Please consult with a healthcare professional directly.'',
            confidence = Finite 0\<rparr>, st))
   \<and> ((\<forall>X y. \<exists>e. pipeline_fit rt X y = Inl e) \<longrightarrow>
      assess_patient_symptoms rt st text =
          (\<lparr>severity = py ''Unknown'',
            recommendation = py ''Error in AI model. Please consult with a healthcare professional directly.'',
            confidence = Finite 0\<rparr>, st))"
  by (simp add: assess_patient_symptoms_def assess_symptoms_no_model triage_ai_no_ml
        triage_ai_fit_fails no_model_result_def)

theorem degraded_fallback_witness:
  "\<not> ML_AVAILABLE degraded_runtime
   \<and> assess_patient_symptoms degraded_runtime (module_state degraded_runtime) (py ''anything'') =
          (\<lparr>severity = py ''Unknown'',
            recommendation = py ''Error in AI model. Please consult with a healthcare professional directly.'',
            confidence = Finite 0\<rparr>, module_state degraded_runtime)"
proof -
  have h: "\<not> ML_AVAILABLE degraded_runtime"
    by (simp add: ML_AVAILABLE_def degraded_runtime_def)
  show ?thesis
    by (rule conjI [OF h
          degraded_fallback [THEN conjunct2, THEN conjunct1, rule_format, OF h]])
qed

text \<open>
  C3 (disclaimer gating). For every severity, label or not, every confidence, NaN and
  the infinities included, and every threshold, the recommendation contains the
  disclaimer exactly when the confidence is strictly below the threshold of the
  orchestrator; and the threshold of the module's instance is the float 0.6. So at a
  confidence of 0.6 or more the disclaimer is absent.
\<close>

theorem disclaimer_gating:
  "sublist disclaimer (generate_recommendation self sev conf symptoms)
     = float_lt conf (confidence_threshold self)
   \<and> confidence_threshold (fst (triage_ai rt)) = Finite float_0_6
   \<and> float_lt (Finite c) (Finite float_0_6) = (c < float_0_6)"
proof -
  let ?base = "case map_of recommendations sev of
                 Some r \<Rightarrow> r
               | None \<Rightarrow> default_recommendation"
  have "sublist disclaimer (generate_recommendation self sev conf symptoms)
          = float_lt conf (confidence_threshold self)"
  proof (cases "float_lt conf (confidence_threshold self)")
    case True
    then show ?thesis by (simp add: generate_recommendation_def)
  next
    case False
    have "\<not> sublist disclaimer ?base"
      using set_mono_sublist [of disclaimer ?base]
        disclaimer_newline base_recommendation_no_newline [of sev]
      by blast
    with False show ?thesis by (simp add: generate_recommendation_def)
  qed
  then show ?thesis by (simp add: triage_ai_threshold)
qed

text \<open>
  C5 (confidence bound). When the libraries are available and the classifier answers the
  preprocessed text with a row of four numbers that sum to 1, the confidence that
  \<open>assess_symptoms\<close> returns is the largest of the four, and it is at least 0.25.
\<close>

theorem confidence_is_max_probability:
  assumes "ML_AVAILABLE rt" and "model self = Some m"
    and "fst (preprocess_text rt st text) = Inr pre"
    and "predict m [pre] = Inr (sev # others)"
    and "predict_proba m [pre] = Inr (map Finite ps # others_rows)"
    and "length ps = 4" and "sum_list ps = 1"
  shows "confidence (fst (assess_symptoms rt self st text)) = Finite (Max (set ps))
         \<and> 1 / 4 \<le> Max (set ps)"
proof -
  from \<open>length ps = 4\<close> obtain p qs where ps: "ps = p # qs"
    by (cases ps) auto
  have "np_max (map Finite ps) = Inr (Finite (Max (set ps)))"
    unfolding ps using foldl_float_max2_Finite [of p qs] by simp
  with assms(1-5) have "confidence (fst (assess_symptoms rt self st text)) = Finite (Max (set ps))"
    by (simp add: fst_assess_symptoms fst_assess_try and_then_def item0_def)
  with Max_of_four_at_least_quarter [OF assms(6,7)] show ?thesis by simp
qed

theorem confidence_is_max_probability_witness:
  "ML_AVAILABLE example_runtime
   \<and> fst (preprocess_text example_runtime (module_state example_runtime)
            (py ''I have a mild headache'')) = Inr (py ''i have a mild headache'')
   \<and> sum_list [1/10, 2/10, 4/10, 3/10 :: real] = 1
   \<and> confidence (fst (assess_symptoms example_runtime example_triage
                       (module_state example_runtime) (py ''I have a mild headache'')))
       = Finite (Max (set [1/10, 2/10, 4/10, 3/10]))
   \<and> (1 / 4 :: real) \<le> Max (set [1/10, 2/10, 4/10, 3/10])"
proof -
  have h1: "ML_AVAILABLE example_runtime"
    by (simp add: ML_AVAILABLE_def example_runtime_def)
  have h2: "model example_triage = Some (constant_pipeline (py ''Low''))"
    by (simp add: example_triage_def)
  have h3: "fst (preprocess_text example_runtime (module_state example_runtime)
                  (py ''I have a mild headache'')) = Inr (py ''i have a mild headache'')"
    by (simp add: fst_preprocess_text fst_get_nlp_model module_state_def example_runtime_def
          re_sub_word_space str_lower_def ascii_lower_def is_word_char_def is_space_char_def)
  have h4: "predict (constant_pipeline (py ''Low'')) [py ''i have a mild headache'']
              = Inr (py ''Low'' # [])"
    by (simp add: constant_pipeline_def)
  have h5: "predict_proba (constant_pipeline (py ''Low'')) [py ''i have a mild headache'']
              = Inr (map Finite [1/10, 2/10, 4/10, 3/10] # [])"
    by (simp add: constant_pipeline_def)
  have h6: "length [1/10, 2/10, 4/10, 3/10 :: real] = 4" by simp
  have h7: "sum_list [1/10, 2/10, 4/10, 3/10 :: real] = 1" by simp
  show ?thesis
    by (rule conjI [OF h1 conjI [OF h3 conjI [OF h7
          confidence_is_max_probability [OF h1 h2 h3 h4 h5 h6 h7]]]])
qed

text \<open>
  C6 (inference determinism). With the model and the environment fixed, the result of
  \<open>assess_symptoms\<close> for a text does not depend on the state the call starts in as far as
  earlier calls can change it: a second call with the same text returns the same
  severity, recommendation and confidence as the first, and so does a call made after an
  assessment of any other text. The calls change the state (the cached annotator and the
  log), never the result.
\<close>

theorem assess_symptoms_deterministic:
  "fst (assess_symptoms rt self (snd (assess_symptoms rt self st text)) text)
     = fst (assess_symptoms rt self st text)
   \<and> fst (assess_symptoms rt self (snd (assess_symptoms rt self st other)) text)
     = fst (assess_symptoms rt self st text)"
  by (intro conjI assess_symptoms_same_annotator annotator_after_assess_symptoms)

text \<open>
  C7 (regex fallback of the normaliser). When no annotator is cached and loading it
  fails, \<open>preprocess_text\<close> returns the text in lower case with every code point that is
  neither a word character nor whitespace removed, the whitespace left as it was. For
  "I HAVE a Headache!!" that is "i have a headache", which contains "headache".
\<close>

theorem preprocess_text_regex_fallback:
  assumes "nlp_global st = None" and "spacy_load rt = Inl e"
  shows "fst (preprocess_text rt st text) = Inr (spec_regex_normalize rt text)
         \<and> fst (preprocess_text rt st (py ''I HAVE a Headache!!'')) = Inr (py ''i have a headache'')
         \<and> sublist (py ''headache'') (spec_regex_normalize rt (py ''I HAVE a Headache!!''))"
proof -
  have general: "fst (preprocess_text rt st s) = Inr (spec_regex_normalize rt s)" for s
    using assms
    by (simp add: preprocess_text_fallback re_sub_word_space spec_regex_normalize_def)
  have example: "spec_regex_normalize rt (py ''I HAVE a Headache!!'') = py ''i have a headache''"
    by (simp add: spec_regex_normalize_def str_lower_def ascii_lower_def
          is_word_char_def is_space_char_def)
  have "sublist (py ''headache'') (py ''i have a '' @ py ''headache'')"
    by (rule sublist_append_leftI)
  then have "sublist (py ''headache'') (py ''i have a headache'')"
    by simp
  with general example show ?thesis by simp
qed

theorem preprocess_text_regex_fallback_witness:
  "nlp_global (module_state example_runtime) = None
   \<and> spacy_load example_runtime = Inl (OSError (py ''Can't find model en_core_web_sm''))
   \<and> fst (preprocess_text example_runtime (module_state example_runtime)
            (py ''I HAVE a Headache!!'')) = Inr (py ''i have a headache'')"
proof -
  have h1: "nlp_global (module_state example_runtime) = None"
    by (simp add: module_state_def)
  have h2: "spacy_load example_runtime = Inl (OSError (py ''Can't find model en_core_web_sm''))"
    by (simp add: example_runtime_def)
  show ?thesis
    by (rule conjI [OF h1 conjI [OF h2
          preprocess_text_regex_fallback [OF h1 h2, THEN conjunct2, THEN conjunct1]]])
qed

text \<open>
  C8 (the annotator is loaded at most once). Whatever the environment answers at each
  call, a sequence of calls of \<open>get_nlp_model\<close> from the start of the process loads the
  annotator successfully at most once. Once a call has returned an annotator, every later
  call returns that annotator and changes nothing: it does not load again. A load that
  fails is not raised: the call returns \<open>None\<close>, appends one warning to the log, and
  \<open>preprocess_text\<close> takes the regex path.
\<close>

theorem annotator_loaded_at_most_once:
  "successful_loads (get_nlp_model_calls rts (module_state rt0)) \<le> 1
   \<and> (fst (get_nlp_model rt st) = Some a \<longrightarrow>
        get_nlp_model_calls rts (snd (get_nlp_model rt st)) = snd (get_nlp_model rt st)
        \<and> get_nlp_model rt' (get_nlp_model_calls rts (snd (get_nlp_model rt st)))
            = (Some a, snd (get_nlp_model rt st)))
   \<and> (nlp_global st = None \<and> spacy_load rt = Inl e \<longrightarrow>
        fst (get_nlp_model rt st) = None
        \<and> nlp_global (snd (get_nlp_model rt st)) = None
        \<and> (\<exists>w. logged (snd (get_nlp_model rt st)) = logged st @ [Warning w])
        \<and> fst (preprocess_text rt st text)
            = Inr (re_sub rt (Not_in [Word_class, Space_class]) [] (str_lower rt text)))"
proof (intro conjI impI)
  show "successful_loads (get_nlp_model_calls rts (module_state rt0)) \<le> 1"
    by (rule successful_loads_calls)
      (simp add: successful_loads_module_state split: option.splits)
next
  assume "fst (get_nlp_model rt st) = Some a"
  then have c: "nlp_global (snd (get_nlp_model rt st)) = Some a"
    by (simp add: nlp_global_get_nlp_model)
  then show "get_nlp_model_calls rts (snd (get_nlp_model rt st)) = snd (get_nlp_model rt st)"
    by (rule get_nlp_model_calls_cached)
  with c show "get_nlp_model rt' (get_nlp_model_calls rts (snd (get_nlp_model rt st)))
                 = (Some a, snd (get_nlp_model rt st))"
    by (simp add: get_nlp_model_cached)
next
  assume h: "nlp_global st = None \<and> spacy_load rt = Inl e"
  then show "fst (get_nlp_model rt st) = None"
    and "nlp_global (snd (get_nlp_model rt st)) = None"
    and "\<exists>w. logged (snd (get_nlp_model rt st)) = logged st @ [Warning w]"
    by (simp_all add: get_nlp_model_failed)
  from h show "fst (preprocess_text rt st text)
                 = Inr (re_sub rt (Not_in [Word_class, Space_class]) [] (str_lower rt text))"
    by (simp add: preprocess_text_fallback)
qed

theorem annotator_loaded_at_most_once_witness:
  "fst (get_nlp_model spacy_runtime (module_state spacy_runtime)) = Some whole_text_annotator
   \<and> get_nlp_model example_runtime
        (get_nlp_model_calls [example_runtime, spacy_runtime]
           (snd (get_nlp_model spacy_runtime (module_state spacy_runtime))))
       = (Some whole_text_annotator, snd (get_nlp_model spacy_runtime (module_state spacy_runtime)))
   \<and> (nlp_global (module_state example_runtime) = None
      \<and> spacy_load example_runtime = Inl (OSError (py ''Can't find model en_core_web_sm'')))
   \<and> fst (get_nlp_model example_runtime (module_state example_runtime)) = None
   \<and> successful_loads
        (get_nlp_model_calls [example_runtime, spacy_runtime, spacy_runtime, example_runtime]
           (module_state example_runtime)) \<le> 1"
proof -
  note inst = annotator_loaded_at_most_once
    [where rts = "[example_runtime, spacy_runtime]" and rt = spacy_runtime
       and st = "module_state spacy_runtime" and a = whole_text_annotator
       and rt' = example_runtime]
  have h1: "fst (get_nlp_model spacy_runtime (module_state spacy_runtime))
              = Some whole_text_annotator"
    by (simp add: fst_get_nlp_model module_state_def spacy_runtime_def)
  have h2: "nlp_global (module_state example_runtime) = None
            \<and> spacy_load example_runtime = Inl (OSError (py ''Can't find model en_core_web_sm''))"
    by (simp add: module_state_def example_runtime_def)
  have c1: "get_nlp_model example_runtime
        (get_nlp_model_calls [example_runtime, spacy_runtime]
           (snd (get_nlp_model spacy_runtime (module_state spacy_runtime))))
       = (Some whole_text_annotator, snd (get_nlp_model spacy_runtime (module_state spacy_runtime)))"
    by (rule inst [THEN conjunct2, THEN conjunct1, rule_format, OF h1, THEN conjunct2])
  have c2: "fst (get_nlp_model example_runtime (module_state example_runtime)) = None"
    by (rule annotator_loaded_at_most_once
          [THEN conjunct2, THEN conjunct2, rule_format, OF h2, THEN conjunct1])
  have c3: "successful_loads
        (get_nlp_model_calls [example_runtime, spacy_runtime, spacy_runtime, example_runtime]
           (module_state example_runtime)) \<le> 1"
    by (rule annotator_loaded_at_most_once [THEN conjunct1])
  show ?thesis
    by (rule conjI [OF h1 conjI [OF c1 conjI [OF h2 conjI [OF c2 c3]]]])
qed

text \<open>
  C9 (the recommendation ignores the symptoms). For every severity and confidence,
  \<open>generate_recommendation\<close> returns the same text for any two symptom strings.
\<close>

theorem generate_recommendation_ignores_symptoms:
  "generate_recommendation self sev conf s1 = generate_recommendation self sev conf s2"
  by (simp add: generate_recommendation_def)

text \<open>
  C10 (two failure results). Without a model \<open>assess_symptoms\<close> returns the
  recommendation "Error in AI model. Please consult with a healthcare professional
  directly."; when a call inside its \<open>try\<close> raises, it returns "An error occurred during
  assessment. Please consult with a healthcare professional.". The two strings differ,
  and both results carry the severity Unknown and the confidence 0.0.
\<close>

theorem two_failure_results:
  "(model self = None \<longrightarrow>
      fst (assess_symptoms rt self st text) =
          \<lparr>severity = py ''Unknown'',
            recommendation = py ''Error in AI model. Please consult with a healthcare professional directly.'',
            confidence = Finite 0\<rparr>)
   \<and> (model self = Some m \<and> fst (assess_try rt self m st text) = Inl e \<longrightarrow>
      fst (assess_symptoms rt self st text) =
          \<lparr>severity = py ''Unknown'',
            recommendation = py ''An error occurred during assessment. Please consult with a healthcare professional.'',
            confidence = Finite 0\<rparr>)
   \<and> py ''Error in AI model. Please consult with a healthcare professional directly.''
       \<noteq> py ''An error occurred during assessment. Please consult with a healthcare professional.''"
  by (simp add: fst_assess_symptoms no_model_result_def exception_result_def)

theorem two_failure_results_witness:
  "model (fst (triage_ai degraded_runtime)) = None
   \<and> fst (assess_symptoms degraded_runtime (fst (triage_ai degraded_runtime))
            (module_state degraded_runtime) (py ''Chest pain'')) =
          \<lparr>severity = py ''Unknown'',
            recommendation = py ''Error in AI model. Please consult with a healthcare professional directly.'',
            confidence = Finite 0\<rparr>
   \<and> (model failing_triage = Some failing_pipeline
      \<and> fst (assess_try example_runtime failing_triage failing_pipeline
               (module_state example_runtime) (py ''Chest pain''))
          = Inl (ValueError (py ''empty vocabulary'')))
   \<and> fst (assess_symptoms example_runtime failing_triage
            (module_state example_runtime) (py ''Chest pain'')) =
          \<lparr>severity = py ''Unknown'',
            recommendation = py ''An error occurred during assessment. Please consult with a healthcare professional.'',
            confidence = Finite 0\<rparr>"
proof -
  have h1: "model (fst (triage_ai degraded_runtime)) = None"
    by (rule triage_ai_no_ml) (simp add: ML_AVAILABLE_def degraded_runtime_def)
  have h2: "model failing_triage = Some failing_pipeline
      \<and> fst (assess_try example_runtime failing_triage failing_pipeline
               (module_state example_runtime) (py ''Chest pain''))
          = Inl (ValueError (py ''empty vocabulary''))"
    by (simp add: failing_triage_def fst_assess_try fst_preprocess_text fst_get_nlp_model
          module_state_def example_runtime_def failing_pipeline_def and_then_def)
  show ?thesis
    by (rule conjI [OF h1 conjI [OF
          two_failure_results [THEN conjunct1, rule_format, OF h1] conjI [OF h2
          two_failure_results [THEN conjunct2, THEN conjunct1, rule_format, OF h2]]]])
qed

end
